theory Spec2Isabelle
  imports Complex_Main "HOL-Library.Sublist"
begin

section \<open>Tables\<close>

text \<open>
  The dashboard of \<^verbatim>\<open>app.py\<close> works on one in-memory table. A cell is a missing
  value, a text or a number; a column has a storage type, which the table keeps when rows
  are removed: the schema lists the columns with their types. A row is the list of its
  cells, in the order of the schema.
\<close>

datatype cell = NaN | Str string | Num int

datatype dtype = Object | Numeric

record dataframe =
  schema :: "(string \<times> dtype) list"
  rows :: "cell list list"

text \<open>\<^verbatim>\<open>df.columns\<close>: the column names, in order.\<close>

definition columns :: "dataframe \<Rightarrow> string list" where
  "columns df = map fst (schema df)"

fun index_of :: "'a list \<Rightarrow> 'a \<Rightarrow> nat" where
  "index_of [] a = 0"
| "index_of (x # xs) a = (if x = a then 0 else Suc (index_of xs a))"

text \<open>\<^verbatim>\<open>row[col]\<close>: the cell of a row under a column name; a row shorter than the header
  is missing there.\<close>

definition cell_at :: "string list \<Rightarrow> string \<Rightarrow> cell list \<Rightarrow> cell" where
  "cell_at cols c r = (let i = index_of cols c in if i < length r then r ! i else NaN)"

text \<open>\<^verbatim>\<open>df[col]\<close>: the values of a column, one for each row.\<close>

definition column :: "dataframe \<Rightarrow> string \<Rightarrow> cell list" where
  "column df c = map (cell_at (columns df) c) (rows df)"

text \<open>The storage type of a column, if the table has the column.\<close>

definition dtype_of :: "dataframe \<Rightarrow> string \<Rightarrow> dtype option" where
  "dtype_of df c = map_of (schema df) c"

text \<open>\<^verbatim>\<open>Series.unique().tolist()\<close>: the distinct values in order of first appearance.\<close>

fun unique :: "'a list \<Rightarrow> 'a list" where
  "unique [] = []"
| "unique (x # xs) = x # unique (filter (\<lambda>y. y \<noteq> x) xs)"

text \<open>
  \<^verbatim>\<open>def safe_unique(df, col):
      return df[col].unique().tolist() if col in df.columns else []\<close>
\<close>

definition safe_unique :: "dataframe \<Rightarrow> string \<Rightarrow> cell list" where
  "safe_unique df col = (if col \<in> set (columns df) then unique (column df col) else [])"

section \<open>The sidebar filters\<close>

text \<open>The six multi-select controls return the lists of selected values.\<close>

record sidebar =
  selected_depts :: "cell list"
  selected_roles :: "cell list"
  selected_genders :: "cell list"
  selected_education :: "cell list"
  selected_marital :: "cell list"
  selected_overtime :: "cell list"

definition filter_columns :: "string list" where
  "filter_columns =
     [''Department'', ''JobRole'', ''Gender'', ''Education'', ''MaritalStatus'', ''OverTime'']"

definition selections :: "sidebar \<Rightarrow> cell list list" where
  "selections s =
     [selected_depts s, selected_roles s, selected_genders s,
      selected_education s, selected_marital s, selected_overtime s]"

text \<open>The default of every control is the full list of options of its column.\<close>

definition default_sidebar :: "dataframe \<Rightarrow> sidebar" where
  "default_sidebar df =
     \<lparr>selected_depts = safe_unique df ''Department'',
      selected_roles = safe_unique df ''JobRole'',
      selected_genders = safe_unique df ''Gender'',
      selected_education = safe_unique df ''Education'',
      selected_marital = safe_unique df ''MaritalStatus'',
      selected_overtime = safe_unique df ''OverTime''\<rparr>"

text \<open>\<^verbatim>\<open>series.isin(selected)\<close>: the boolean mask of membership, row by row.\<close>

definition isin :: "cell list \<Rightarrow> cell list \<Rightarrow> bool list" where
  "isin xs selected = map (\<lambda>x. x \<in> set selected) xs"

text \<open>\<^verbatim>\<open>df[mask]\<close>: a new table with the rows whose mask entry is true, in their order.\<close>

definition mask_rows :: "dataframe \<Rightarrow> bool list \<Rightarrow> dataframe" where
  "mask_rows df bs = df\<lparr>rows := map fst (filter snd (zip (rows df) bs))\<rparr>"

text \<open>
  The body of the loop:
  \<^verbatim>\<open>if col in filtered_df.columns and selected:
      filtered_df = filtered_df[filtered_df[col].isin(selected)]\<close>
\<close>

definition filter_step :: "dataframe \<Rightarrow> string \<times> cell list \<Rightarrow> dataframe" where
  "filter_step fdf cs =
     (case cs of (col, selected) \<Rightarrow>
        if col \<in> set (columns fdf) \<and> selected \<noteq> []
        then mask_rows fdf (isin (column fdf col) selected)
        else fdf)"

fun apply_filters :: "dataframe \<Rightarrow> (string \<times> cell list) list \<Rightarrow> dataframe" where
  "apply_filters fdf [] = fdf"
| "apply_filters fdf (cs # rest) = apply_filters (filter_step fdf cs) rest"

text \<open>
  \<^verbatim>\<open>filtered_df = df.copy()
  for col, selected in zip([...], [...]): ...\<close>
\<close>

definition filtered_df :: "dataframe \<Rightarrow> sidebar \<Rightarrow> dataframe" where
  "filtered_df df s = apply_filters df (zip filter_columns (selections s))"

text \<open>The membership test of one column on one row, as the data model states it.\<close>

definition passes :: "dataframe \<Rightarrow> cell list \<Rightarrow> string \<times> cell list \<Rightarrow> bool" where
  "passes df r cs =
     (case cs of (col, selected) \<Rightarrow>
        col \<in> set (columns df) \<and> selected \<noteq> [] \<longrightarrow> cell_at (columns df) col r \<in> set selected)"

text \<open>A selection leaves a column unconstrained when it is empty or holds exactly the values
  that occur in the column.\<close>

definition unconstrained :: "dataframe \<Rightarrow> sidebar \<Rightarrow> bool" where
  "unconstrained df s =
     (\<forall>cs \<in> set (zip filter_columns (selections s)).
        snd cs = [] \<or> set (snd cs) = set (safe_unique df (fst cs)))"

section \<open>The filter as a program on objects\<close>

text \<open>
  Tables are objects: a name is bound to an address, and the heap holds the table at each
  address. \<^verbatim>\<open>df.copy()\<close> and \<^verbatim>\<open>df[mask]\<close> each build a new object; the
  assignment binds the name \<^verbatim>\<open>filtered_df\<close> to it.
\<close>

record pystate =
  heap :: "nat \<Rightarrow> dataframe"
  next_addr :: nat
  df_ref :: nat
  filtered_ref :: nat

definition empty_df :: dataframe where
  "empty_df = \<lparr>schema = [], rows = []\<rparr>"

definition load_state :: "dataframe \<Rightarrow> pystate" where
  "load_state d = \<lparr>heap = (\<lambda>a. empty_df)(0 := d), next_addr = 1, df_ref = 0, filtered_ref = 0\<rparr>"

definition bind_filtered :: "pystate \<Rightarrow> dataframe \<Rightarrow> pystate" where
  "bind_filtered st t =
     st\<lparr>heap := (heap st)(next_addr st := t), filtered_ref := next_addr st,
        next_addr := Suc (next_addr st)\<rparr>"

definition copy_stmt :: "pystate \<Rightarrow> pystate" where
  "copy_stmt st = bind_filtered st (heap st (df_ref st))"

definition loop_body :: "pystate \<Rightarrow> string \<times> cell list \<Rightarrow> pystate" where
  "loop_body st cs =
     (case cs of (col, selected) \<Rightarrow>
        let fdf = heap st (filtered_ref st) in
        if col \<in> set (columns fdf) \<and> selected \<noteq> []
        then bind_filtered st (mask_rows fdf (isin (column fdf col) selected))
        else st)"

fun filter_loop :: "pystate \<Rightarrow> (string \<times> cell list) list \<Rightarrow> pystate" where
  "filter_loop st [] = st"
| "filter_loop st (cs # rest) = filter_loop (loop_body st cs) rest"

definition filter_program :: "dataframe \<Rightarrow> sidebar \<Rightarrow> pystate" where
  "filter_program d s = filter_loop (copy_stmt (load_state d)) (zip filter_columns (selections s))"

text \<open>Two names are bound to allocated, different objects.\<close>

definition separate :: "pystate \<Rightarrow> bool" where
  "separate st \<longleftrightarrow> df_ref st < next_addr st \<and> filtered_ref st < next_addr st \<and> filtered_ref st \<noteq> df_ref st"



section \<open>Derived views\<close>

text \<open>The exceptions that the table operations of the dashboard can raise.\<close>

datatype error = AttributeError | ValueError

subsection \<open>Attrition rate\<close>

text \<open>Lower case of a character; \<^verbatim>\<open>str.lower\<close> changes no other character into one of
  \<^verbatim>\<open>y\<close>, \<^verbatim>\<open>e\<close>, \<^verbatim>\<open>s\<close>.\<close>

definition lower_char :: "char \<Rightarrow> char" where
  "lower_char c =
     (case map_of (zip ''ABCDEFGHIJKLMNOPQRSTUVWXYZ'' ''abcdefghijklmnopqrstuvwxyz'') c of
        Some l \<Rightarrow> l
      | None \<Rightarrow> c)"

text \<open>\<^verbatim>\<open>Series.str.lower()\<close> on one value: a text is lowered, any other value becomes
  missing.\<close>

fun str_lower :: "cell \<Rightarrow> cell" where
  "str_lower (Str s) = Str (map lower_char s)"
| "str_lower c = NaN"

text \<open>\<^verbatim>\<open>df[c].str\<close>: the text accessor exists on a text column only; on a numeric
  column it raises \<^verbatim>\<open>AttributeError\<close>, whatever the rows are.\<close>

definition str_accessor :: "dataframe \<Rightarrow> string \<Rightarrow> error + cell list" where
  "str_accessor df c =
     (if dtype_of df c = Some Object then Inr (column df c) else Inl AttributeError)"

text \<open>\<^verbatim>\<open>Series.mean()\<close> of a boolean series, in exact arithmetic; the mean of no
  values is not a number (\<open>None\<close>).\<close>

definition mean_bool :: "bool list \<Rightarrow> real option" where
  "mean_bool bs =
     (if bs = [] then None else Some (real (length (filter id bs)) / real (length bs)))"

text \<open>
  \<^verbatim>\<open>attrition_rate = 100 * filtered_df['Attrition'].str.lower().eq('yes').mean()
      if 'Attrition' in filtered_df.columns else np.nan\<close>
\<close>

definition attrition_rate :: "dataframe \<Rightarrow> error + real option" where
  "attrition_rate fdf =
     (if ''Attrition'' \<in> set (columns fdf)
      then (case str_accessor fdf ''Attrition'' of
              Inl e \<Rightarrow> Inl e
            | Inr vals \<Rightarrow>
                Inr (map_option (\<lambda>m. 100 * m)
                       (mean_bool (map (\<lambda>v. str_lower v = Str ''yes'') vals))))
      else Inr None)"

text \<open>The rate as the specification words it: a hundred times the fraction of rows whose
  attrition value, in lower case, is \<^verbatim>\<open>yes\<close>; undefined without the column or without
  rows.\<close>

definition spec_attrition_rate :: "dataframe \<Rightarrow> real option" where
  "spec_attrition_rate fdf =
     (if ''Attrition'' \<in> set (columns fdf) \<and> rows fdf \<noteq> []
      then Some (100 * (real (length (filter (\<lambda>r. str_lower (cell_at (columns fdf) ''Attrition'' r) = Str ''yes'')
                                       (rows fdf)))
                        / real (length (rows fdf))))
      else None)"

text \<open>The metric widget shows \<^verbatim>\<open>N/A\<close> for a rate that is not a number.\<close>

datatype metric = NotAvailable | Percent real

definition rate_metric :: "real option \<Rightarrow> metric" where
  "rate_metric r = (case r of None \<Rightarrow> NotAvailable | Some x \<Rightarrow> Percent x)"

subsection \<open>Cross-tabulation\<close>

text \<open>
  \<^verbatim>\<open>pd.crosstab(a, b, normalize='index')\<close>: the rows with a missing value in either
  column are dropped; the table has one row for each value of \<^verbatim>\<open>a\<close> and one entry for
  each value of \<^verbatim>\<open>b\<close>, the count of the pair, and each row is divided by its sum (a
  row of sum zero is filled with zeros). The library orders the labels; the order does not
  enter any entry, and the labels are listed here in order of first appearance.
\<close>

type_synonym crosstab = "(cell \<times> (cell \<times> real) list) list"

definition crosstab_counts :: "cell list \<Rightarrow> cell list \<Rightarrow> (cell \<times> (cell \<times> nat) list) list" where
  "crosstab_counts a b =
     (let pairs = filter (\<lambda>p. fst p \<noteq> NaN \<and> snd p \<noteq> NaN) (zip a b)
      in map (\<lambda>r. (r, map (\<lambda>c. (c, length (filter (\<lambda>p. p = (r, c)) pairs)))
                           (unique (map snd pairs))))
             (unique (map fst pairs)))"

definition normalize_row :: "(cell \<times> nat) list \<Rightarrow> (cell \<times> real) list" where
  "normalize_row es =
     (let total = sum_list (map snd es)
      in map (\<lambda>e. (fst e, if total = 0 then 0 else real (snd e) / real total)) es)"

definition crosstab_index :: "cell list \<Rightarrow> cell list \<Rightarrow> crosstab" where
  "crosstab_index a b = map (\<lambda>row. (fst row, normalize_row (snd row))) (crosstab_counts a b)"

text \<open>
  \<^verbatim>\<open>if 'Department' in filtered_df.columns and 'Attrition' in filtered_df.columns:
      ct = pd.crosstab(filtered_df['Department'], filtered_df['Attrition'], normalize='index')\<close>
  and the same for \<^verbatim>\<open>MaritalStatus\<close> and \<^verbatim>\<open>OverTime\<close>; without either column
  the view is not drawn.
\<close>

definition crosstab_view :: "dataframe \<Rightarrow> string \<Rightarrow> string \<Rightarrow> crosstab option" where
  "crosstab_view fdf a b =
     (if a \<in> set (columns fdf) \<and> b \<in> set (columns fdf)
      then Some (crosstab_index (column fdf a) (column fdf b)) else None)"

subsection \<open>Correlation and summary\<close>

text \<open>\<^verbatim>\<open>filtered_df.select_dtypes(include=np.number).columns\<close>: the numeric columns.\<close>

definition num_cols :: "dataframe \<Rightarrow> string list" where
  "num_cols fdf = map fst (filter (\<lambda>cd. snd cd = Numeric) (schema fdf))"



subsection \<open>Pivot table\<close>

text \<open>
  \<^verbatim>\<open>st.selectbox(label, options, key=...)\<close> returns the option the user has picked;
  until the user picks one it returns the first option, and with no options it returns
  \<^verbatim>\<open>None\<close>. The user's pick is \<open>None\<close> for a control that was never touched.
\<close>

definition selectbox :: "'a list \<Rightarrow> 'a option \<Rightarrow> 'a option" where
  "selectbox options pick =
     (let first = (case options of [] \<Rightarrow> None | x # xs \<Rightarrow> Some x)
      in case pick of
           None \<Rightarrow> first
         | Some v \<Rightarrow> if v \<in> set options then Some v else first)"

record pivot_controls =
  row_pick :: "string option"
  col_pick :: "string option"
  agg_pick :: "string option"

definition untouched :: pivot_controls where
  "untouched = \<lparr>row_pick = None, col_pick = None, agg_pick = None\<rparr>"

definition aggregations :: "string list" where
  "aggregations = [''count'', ''mean'', ''sum'', ''min'', ''max'']"

text \<open>What the pivot section shows: the table, or the warning of the handler.\<close>

datatype 'p pivot_output = PivotTable 'p | Warning string

text \<open>Truth value of \<^verbatim>\<open>row\<close> in \<^verbatim>\<open>if row and col\<close>: \<^verbatim>\<open>None\<close> and the empty
  string are false.\<close>

definition truthy :: "string option \<Rightarrow> bool" where
  "truthy x = (case x of None \<Rightarrow> False | Some s \<Rightarrow> s \<noteq> [])"

text \<open>
  \<^verbatim>\<open>cols = filtered_df.columns.tolist()
  row = st.selectbox("Row", cols, key="row")
  col = st.selectbox("Column", cols, key="col")
  agg = st.selectbox("Aggregation", ["count", "mean", "sum", "min", "max"], key="agg")
  if row and col:
      try:
          pt = pd.pivot_table(filtered_df, index=row, columns=col, aggfunc=agg)
          st.dataframe(pt)
      except Exception as e:
          st.warning(f"Pivot error: {e}")\<close>
  The library's \<^verbatim>\<open>pd.pivot_table\<close> is the parameter \<open>pivot_table\<close>: it returns the pivot
  or the message of the exception it raises. The result is \<open>None\<close> when no pivot is
  computed.
\<close>

definition pivot_section ::
  "(dataframe \<Rightarrow> string \<Rightarrow> string \<Rightarrow> string \<Rightarrow> string + 'p) \<Rightarrow> dataframe \<Rightarrow> pivot_controls
     \<Rightarrow> 'p pivot_output option" where
  "pivot_section pivot_table fdf pc =
     (let cols = columns fdf;
          row = selectbox cols (row_pick pc);
          col = selectbox cols (col_pick pc);
          agg = selectbox aggregations (agg_pick pc)
      in if truthy row \<and> truthy col
         then (case (row, col, agg) of
                 (Some r, Some c, Some a) \<Rightarrow>
                   (case pivot_table fdf r c a of
                      Inr pt \<Rightarrow> Some (PivotTable pt)
                    | Inl e \<Rightarrow> Some (Warning (''Pivot error: '' @ e)))
               | _ \<Rightarrow> None)
         else None)"

subsection \<open>The pivot of the library and the end of the script\<close>

text \<open>The columns that a pivot aggregates: all but the row and the column key.\<close>

definition value_columns :: "dataframe \<Rightarrow> string \<Rightarrow> string \<Rightarrow> string list" where
  "value_columns fdf r c = filter (\<lambda>x. x \<noteq> r \<and> x \<noteq> c) (columns fdf)"

text \<open>
  \<^verbatim>\<open>pd.pivot_table(filtered_df, index=row, columns=col, aggfunc=agg)\<close> groups the rows
  by the two keys and aggregates every other column. On a table with rows whose only
  columns are two different keys there is nothing to aggregate, and the library returns an
  empty pivot whatever the aggregation is. Everything else, the grouping and the aggregation of the value columns
  with the exceptions it raises, is the library's and is the parameter \<open>aggregate\<close>.
\<close>

datatype 'a pivot = EmptyPivot | Aggregated 'a

definition pd_pivot_table ::
  "(dataframe \<Rightarrow> string \<Rightarrow> string \<Rightarrow> string \<Rightarrow> string + 'a) \<Rightarrow> dataframe \<Rightarrow> string \<Rightarrow> string
     \<Rightarrow> string \<Rightarrow> string + 'a pivot" where
  "pd_pivot_table aggregate fdf r c a =
     (if r \<noteq> c \<and> value_columns fdf r c = [] \<and> rows fdf \<noteq> [] then Inr EmptyPivot
      else case aggregate fdf r c a of Inl e \<Rightarrow> Inl e | Inr t \<Rightarrow> Inr (Aggregated t))"

text \<open>
  The end of the script, lines 176 to 188. What has been drawn so far stays on the page;
  the pivot section adds its table or its warning, if it computes a pivot; the caption of
  line 188 is drawn last, since the handler has caught what the pivot raised.
\<close>

datatype 'p widget = Shown "'p pivot_output" | Caption string

definition footer :: string where
  "footer = ''Dashboard built with Streamlit | For HR Insights | Version 1.0''"

definition script_end ::
  "(dataframe \<Rightarrow> string \<Rightarrow> string \<Rightarrow> string \<Rightarrow> string + 'p) \<Rightarrow> dataframe \<Rightarrow> pivot_controls
     \<Rightarrow> 'p widget list \<Rightarrow> 'p widget list" where
  "script_end pivot_table fdf pc page =
     page @ (case pivot_section pivot_table fdf pc of None \<Rightarrow> [] | Some out \<Rightarrow> [Shown out])
          @ [Caption footer]"

section \<open>Example tables\<close>

text \<open>The table of the specification's scenario: three records in two departments.\<close>

definition example_df :: dataframe where
  "example_df =
     \<lparr>schema = [(''Department'', Object), (''Attrition'', Object)],
      rows = [[Str ''A'', Str ''Yes''], [Str ''A'', Str ''No''], [Str ''B'', Str ''No'']]\<rparr>"

definition only_dept_A :: sidebar where
  "only_dept_A =
     \<lparr>selected_depts = [Str ''A''], selected_roles = [], selected_genders = [],
      selected_education = [], selected_marital = [], selected_overtime = []\<rparr>"

text \<open>A table whose attrition column is coded in numbers, and one where everybody left.\<close>

definition numeric_attrition_df :: dataframe where
  "numeric_attrition_df = \<lparr>schema = [(''Attrition'', Numeric)], rows = [[Num 0], [Num 0]]\<rparr>"

definition all_yes_df :: dataframe where
  "all_yes_df = \<lparr>schema = [(''Attrition'', Object)], rows = [[Str ''Yes''], [Str ''Yes'']]\<rparr>"


text \<open>A pivot library that always returns a pivot.\<close>

definition pivot_ok :: "dataframe \<Rightarrow> string \<Rightarrow> string \<Rightarrow> string \<Rightarrow> string + unit" where
  "pivot_ok fdf r c a = Inr ()"

text \<open>An aggregation that refuses the mean of a text column, as the library does, with
  the message \<open>msg\<close> of the library's exception.\<close>

definition mean_needs_numbers ::
  "string \<Rightarrow> dataframe \<Rightarrow> string \<Rightarrow> string \<Rightarrow> string \<Rightarrow> string + unit" where
  "mean_needs_numbers msg fdf r c a =
     (if a = ''mean'' \<and> (\<exists>v \<in> set (value_columns fdf r c). dtype_of fdf v = Some Object)
      then Inl msg
      else Inr ())"

text \<open>The message with which the library (pandas 2.1 to 2.3) refuses the mean of a text
  column.\<close>

definition agg_failed :: string where
  "agg_failed = ''agg function failed [how->mean,dtype->object]''"

definition mean_by_department :: pivot_controls where
  "mean_by_department =
     \<lparr>row_pick = Some ''Department'', col_pick = Some ''Attrition'', agg_pick = Some ''mean''\<rparr>"

text \<open>
  A table with the six filter columns: the first row passes the selection below, and each
  of the other six fails the test of one column only.
\<close>

definition staff_df :: dataframe where
  "staff_df =
     \<lparr>schema = [(''Department'', Object), (''JobRole'', Object), (''Gender'', Object),
                (''Education'', Numeric), (''MaritalStatus'', Object), (''OverTime'', Object),
                (''Attrition'', Object)],
      rows =
        [[Str ''Sales'', Str ''Manager'', Str ''Female'', Num 3, Str ''Single'', Str ''No'', Str ''Yes''],
         [Str ''HR'', Str ''Manager'', Str ''Female'', Num 3, Str ''Single'', Str ''No'', Str ''No''],
         [Str ''Sales'', Str ''Clerk'', Str ''Female'', Num 3, Str ''Single'', Str ''No'', Str ''No''],
         [Str ''Sales'', Str ''Manager'', Str ''Male'', Num 3, Str ''Single'', Str ''No'', Str ''No''],
         [Str ''Sales'', Str ''Manager'', Str ''Female'', Num 1, Str ''Single'', Str ''No'', Str ''No''],
         [Str ''Sales'', Str ''Manager'', Str ''Female'', Num 3, Str ''Married'', Str ''No'', Str ''No''],
         [Str ''Sales'', Str ''Manager'', Str ''Female'', Num 3, Str ''Single'', Str ''Yes'', Str ''No'']]\<rparr>"

definition one_of_each :: sidebar where
  "one_of_each =
     \<lparr>selected_depts = [Str ''Sales''], selected_roles = [Str ''Manager''],
      selected_genders = [Str ''Female''], selected_education = [Num 3],
      selected_marital = [Str ''Single''], selected_overtime = [Str ''No'']\<rparr>"

section \<open>Properties of the filter\<close>

lemma mask_filter: "map fst (filter snd (zip xs (map p xs))) = filter p xs"
  by (induction xs) auto

lemma filter_step_schema: "schema (filter_step fdf cs) = schema fdf"
  by (cases cs) (simp add: filter_step_def mask_rows_def)

lemma filter_step_columns: "columns (filter_step fdf cs) = columns fdf"
  by (simp add: columns_def filter_step_schema)

lemma filter_step_rows:
  "rows (filter_step fdf cs) = filter (\<lambda>r. passes fdf r cs) (rows fdf)"
  by (cases cs) (simp add: filter_step_def mask_rows_def isin_def column_def passes_def mask_filter comp_def)

lemma filter_step_more: "dataframe.more (filter_step fdf cs) = dataframe.more fdf"
  by (cases cs) (simp add: filter_step_def mask_rows_def)

lemma passes_cong:
  "columns fdf = columns df \<Longrightarrow> passes fdf r cs = passes df r cs"
  by (cases cs) (simp add: passes_def)

lemma passes_rows_update: "passes (df\<lparr>rows := rs\<rparr>) r cs = passes df r cs"
  by (rule passes_cong) (simp add: columns_def)

lemma apply_filters_schema: "schema (apply_filters fdf fs) = schema fdf"
  by (induction fs arbitrary: fdf) (simp_all add: filter_step_schema)

lemma apply_filters_columns: "columns (apply_filters fdf fs) = columns fdf"
  by (simp add: columns_def apply_filters_schema)

lemma apply_filters_rows:
  "rows (apply_filters fdf fs) = filter (\<lambda>r. \<forall>cs \<in> set fs. passes fdf r cs) (rows fdf)"
proof (induction fs arbitrary: fdf)
  case Nil
  show ?case by simp
next
  case (Cons cs rest)
  have "rows (apply_filters (filter_step fdf cs) rest) =
        filter (\<lambda>r. \<forall>x \<in> set rest. passes fdf r x) (filter (\<lambda>r. passes fdf r cs) (rows fdf))"
    by (simp add: Cons.IH filter_step_rows passes_cong [OF filter_step_columns])
  then show ?case by (simp add: conj_commute)
qed

lemma filter_step_eq:
  "filter_step fdf cs = fdf\<lparr>rows := filter (\<lambda>r. passes fdf r cs) (rows fdf)\<rparr>"
  by (rule dataframe.equality)
     (simp_all add: filter_step_rows filter_step_schema filter_step_more)

lemma apply_filters_eq:
  "apply_filters fdf fs = fdf\<lparr>rows := filter (\<lambda>r. \<forall>cs \<in> set fs. passes fdf r cs) (rows fdf)\<rparr>"
proof (rule dataframe.equality)
  show "dataframe.more (apply_filters fdf fs) =
        dataframe.more (fdf\<lparr>rows := filter (\<lambda>r. \<forall>cs \<in> set fs. passes fdf r cs) (rows fdf)\<rparr>)"
    by simp
qed (simp_all add: apply_filters_rows apply_filters_schema)

lemma apply_filters_append:
  "apply_filters fdf (fs @ gs) = apply_filters (apply_filters fdf fs) gs"
  by (induction fs arbitrary: fdf) simp_all

lemma set_unique: "set (unique xs) = set xs"
  by (induction xs rule: unique.induct) auto

lemma distinct_unique: "distinct (unique xs)"
  by (induction xs rule: unique.induct) (auto simp: set_unique)

lemma cell_at_in_column: "r \<in> set (rows df) \<Longrightarrow> cell_at (columns df) c r \<in> set (column df c)"
  by (simp add: column_def)

text \<open>
  Claim C1. For every table and every selection, the filtered table has the columns of the
  table and exactly the rows that pass, for each of the six filter columns that is present
  in the table with a non-empty selection, the membership test of that column: the filter
  is the conjunction of the six tests.
\<close>

theorem filtered_df_conjunction:
  "columns (filtered_df df s) = columns df \<and>
   rows (filtered_df df s) =
     filter (\<lambda>r. passes df r (''Department'', selected_depts s) \<and>
                 passes df r (''JobRole'', selected_roles s) \<and>
                 passes df r (''Gender'', selected_genders s) \<and>
                 passes df r (''Education'', selected_education s) \<and>
                 passes df r (''MaritalStatus'', selected_marital s) \<and>
                 passes df r (''OverTime'', selected_overtime s))
            (rows df)"
proof -
  have pairs: "zip filter_columns (selections s) =
      [(''Department'', selected_depts s), (''JobRole'', selected_roles s),
       (''Gender'', selected_genders s), (''Education'', selected_education s),
       (''MaritalStatus'', selected_marital s), (''OverTime'', selected_overtime s)]"
    by (simp add: filter_columns_def selections_def)
  have "rows (filtered_df df s) =
        filter (\<lambda>r. \<forall>cs \<in> set (zip filter_columns (selections s)). passes df r cs) (rows df)"
    by (simp only: filtered_df_def apply_filters_rows)
  also have "\<dots> =
     filter (\<lambda>r. passes df r (''Department'', selected_depts s) \<and>
                 passes df r (''JobRole'', selected_roles s) \<and>
                 passes df r (''Gender'', selected_genders s) \<and>
                 passes df r (''Education'', selected_education s) \<and>
                 passes df r (''MaritalStatus'', selected_marital s) \<and>
                 passes df r (''OverTime'', selected_overtime s))
            (rows df)"
    unfolding pairs by simp
  finally have r: "rows (filtered_df df s) =
     filter (\<lambda>r. passes df r (''Department'', selected_depts s) \<and>
                 passes df r (''JobRole'', selected_roles s) \<and>
                 passes df r (''Gender'', selected_genders s) \<and>
                 passes df r (''Education'', selected_education s) \<and>
                 passes df r (''MaritalStatus'', selected_marital s) \<and>
                 passes df r (''OverTime'', selected_overtime s))
            (rows df)" .
  have "columns (filtered_df df s) = columns df"
    by (simp only: filtered_df_def apply_filters_columns)
  with r show ?thesis by (rule conjI [rotated])
qed

theorem filtered_df_conjunction_witness:
  "set filter_columns \<subseteq> set (columns staff_df) \<and> [] \<notin> set (selections one_of_each) \<and>
   rows (filtered_df staff_df one_of_each) =
     [[Str ''Sales'', Str ''Manager'', Str ''Female'', Num 3, Str ''Single'', Str ''No'', Str ''Yes'']]"
  using filtered_df_conjunction [of staff_df one_of_each]
  by (simp add: staff_df_def one_of_each_def filter_columns_def selections_def passes_def
      cell_at_def columns_def)

text \<open>
  Claim C3. When every selection is empty or holds exactly the values of its column, the
  filtered table is the table itself: same columns, same rows in the same order.
\<close>

theorem filtered_df_identity:
  assumes "unconstrained df s"
  shows "filtered_df df s = df"
proof -
  have all: "\<forall>cs \<in> set (zip filter_columns (selections s)). passes df r cs"
    if r: "r \<in> set (rows df)" for r
  proof
    fix cs assume cs: "cs \<in> set (zip filter_columns (selections s))"
    obtain c sel where eq: "cs = (c, sel)" by (cases cs)
    from assms cs have "snd cs = [] \<or> set (snd cs) = set (safe_unique df (fst cs))"
      unfolding unconstrained_def by blast
    then have sel: "sel = [] \<or> set sel = set (safe_unique df c)"
      by (simp add: eq)
    show "passes df r cs"
    proof (cases "c \<in> set (columns df) \<and> sel \<noteq> []")
      case True
      with sel have "set sel = set (column df c)"
        by (simp add: safe_unique_def set_unique)
      with r show ?thesis
        by (simp add: eq passes_def cell_at_in_column)
    next
      case False
      then show ?thesis by (simp add: eq passes_def)
    qed
  qed
  have "filter (\<lambda>r. \<forall>cs \<in> set (zip filter_columns (selections s)). passes df r cs) (rows df) = rows df"
    using all by (simp only: filter_id_conv) blast
  then have "apply_filters df (zip filter_columns (selections s)) = df"
    by (simp only: apply_filters_eq) simp
  then show ?thesis
    by (simp only: filtered_df_def)
qed

theorem filtered_df_identity_witness:
  "unconstrained example_df (default_sidebar example_df) \<and>
   filtered_df example_df (default_sidebar example_df) = example_df"
proof -
  have u: "unconstrained example_df (default_sidebar example_df)"
    by (simp add: unconstrained_def default_sidebar_def selections_def filter_columns_def)
  from filtered_df_identity [OF u] u show ?thesis by simp
qed

text \<open>
  Claim C4. Two steps of the filter commute, and a sequence of steps gives the same table
  however it is grouped into successive applications.
\<close>

theorem filter_commute_assoc:
  "filter_step (filter_step df a) b = filter_step (filter_step df b) a \<and>
   apply_filters (apply_filters df (xs @ ys)) zs = apply_filters (apply_filters df xs) (ys @ zs)"
proof
  have "filter (\<lambda>r. passes df r b) (filter (\<lambda>r. passes df r a) (rows df)) =
        filter (\<lambda>r. passes df r a) (filter (\<lambda>r. passes df r b) (rows df))"
    by (simp add: conj_commute)
  then show "filter_step (filter_step df a) b = filter_step (filter_step df b) a"
    by (simp add: filter_step_eq passes_rows_update)
  show "apply_filters (apply_filters df (xs @ ys)) zs = apply_filters (apply_filters df xs) (ys @ zs)"
    by (simp add: apply_filters_append)
qed

theorem filter_commute_assoc_witness:
  "filter_step (filter_step example_df (''Department'', [Str ''A''])) (''Attrition'', [Str ''No'']) =
   filter_step (filter_step example_df (''Attrition'', [Str ''No''])) (''Department'', [Str ''A''])"
  using filter_commute_assoc [of example_df "(''Department'', [Str ''A''])"
      "(''Attrition'', [Str ''No''])" "[]" "[]" "[]"]
  by simp

section \<open>The filter on the heap\<close>

lemma loop_body_inv:
  "separate st \<Longrightarrow>
   separate (loop_body st cs) \<and> df_ref (loop_body st cs) = df_ref st \<and>
   heap (loop_body st cs) (df_ref st) = heap st (df_ref st) \<and>
   heap (loop_body st cs) (filtered_ref (loop_body st cs)) = filter_step (heap st (filtered_ref st)) cs"
  by (cases cs) (auto simp: loop_body_def bind_filtered_def separate_def filter_step_def Let_def)

lemma filter_loop_inv:
  "separate st \<Longrightarrow>
   separate (filter_loop st fs) \<and> df_ref (filter_loop st fs) = df_ref st \<and>
   heap (filter_loop st fs) (df_ref st) = heap st (df_ref st) \<and>
   heap (filter_loop st fs) (filtered_ref (filter_loop st fs)) = apply_filters (heap st (filtered_ref st)) fs"
proof (induction fs arbitrary: st)
  case Nil
  then show ?case by simp
next
  case (Cons cs rest)
  from loop_body_inv [OF Cons.prems, of cs] Cons.IH [of "loop_body st cs"]
  show ?case by simp
qed

lemma copy_stmt_load:
  "separate (copy_stmt (load_state d)) \<and> df_ref (copy_stmt (load_state d)) = 0 \<and>
   heap (copy_stmt (load_state d)) 0 = d \<and>
   heap (copy_stmt (load_state d)) (filtered_ref (copy_stmt (load_state d))) = d"
  by (simp add: copy_stmt_def load_state_def bind_filtered_def separate_def)

text \<open>
  Claim C10. The rows of the filtered table are a subsequence of the rows of the table:
  no row is moved or repeated. The program binds the filtered table to an object of its
  own and leaves the object of the loaded table as it was.
\<close>

theorem filter_subsequence_copy:
  "subseq (rows (filtered_df d s)) (rows d) \<and>
   heap (filter_program d s) (filtered_ref (filter_program d s)) = filtered_df d s \<and>
   filtered_ref (filter_program d s) \<noteq> df_ref (filter_program d s) \<and>
   heap (filter_program d s) (df_ref (filter_program d s)) = d"
proof -
  let ?st = "copy_stmt (load_state d)"
  from copy_stmt_load [of d] have sep: "separate ?st" by simp
  from filter_loop_inv [OF sep, of "zip filter_columns (selections s)"] copy_stmt_load [of d]
  have "heap (filter_program d s) (filtered_ref (filter_program d s)) = filtered_df d s"
    and "filtered_ref (filter_program d s) \<noteq> df_ref (filter_program d s)"
    and "heap (filter_program d s) (df_ref (filter_program d s)) = d"
    by (simp_all add: filter_program_def filtered_df_def separate_def)
  moreover have "subseq (rows (filtered_df d s)) (rows d)"
    by (simp add: filtered_df_def apply_filters_rows)
  ultimately show ?thesis by simp
qed


section \<open>Attrition rate\<close>

lemma in_columns_dtype: "c \<in> set (columns df) \<longleftrightarrow> dtype_of df c \<noteq> None"
  by (simp add: columns_def dtype_of_def map_of_eq_None_iff)

lemma length_filter_map: "length (filter id (map p xs)) = length (filter p xs)"
  by (induction xs) simp_all

lemma attrition_rate_object:
  assumes "dtype_of fdf ''Attrition'' \<noteq> Some Numeric"
  shows "attrition_rate fdf = Inr (spec_attrition_rate fdf)"
proof (cases "dtype_of fdf ''Attrition''")
  case None
  then show ?thesis
    by (simp add: attrition_rate_def spec_attrition_rate_def in_columns_dtype)
next
  case (Some t)
  with assms have t: "dtype_of fdf ''Attrition'' = Some Object" by (cases t) simp_all
  then show ?thesis
    by (simp add: attrition_rate_def spec_attrition_rate_def in_columns_dtype str_accessor_def
        mean_bool_def column_def length_filter_map comp_def)
qed

lemma constant_rate:
  assumes "\<forall>r \<in> set rs. f r = v" and "rs \<noteq> []"
  shows "100 * (real (length (filter (\<lambda>r. g (f r) = y) rs)) / real (length rs)) =
         (if g v = y then 100 else 0)"
proof (cases "g v = y")
  case True
  with assms(1) have "filter (\<lambda>r. g (f r) = y) rs = rs" by (simp add: filter_id_conv)
  with True assms(2) show ?thesis by simp
next
  case False
  with assms(1) have "filter (\<lambda>r. g (f r) = y) rs = []" by (simp add: filter_empty_conv)
  with False show ?thesis by simp
qed

text \<open>
  Claim C2, as amended. On a filtered table whose attrition column is absent or is a text
  column, the rate is a hundred times the fraction of rows whose attrition value in lower
  case is \<^verbatim>\<open>yes\<close>; it is not available when the column is absent or the table has no
  rows; and where the column is constant on a non-empty table the rate is 100 if the
  constant is \<^verbatim>\<open>yes\<close> in lower case and 0 otherwise.
\<close>

theorem attrition_rate_text:
  assumes "dtype_of fdf ''Attrition'' \<noteq> Some Numeric"
  shows "attrition_rate fdf = Inr (spec_attrition_rate fdf) \<and>
         (''Attrition'' \<notin> set (columns fdf) \<or> rows fdf = []
            \<longrightarrow> rate_metric (spec_attrition_rate fdf) = NotAvailable) \<and>
         (''Attrition'' \<in> set (columns fdf) \<and> rows fdf \<noteq> [] \<and>
          (\<forall>r \<in> set (rows fdf). cell_at (columns fdf) ''Attrition'' r = v)
            \<longrightarrow> attrition_rate fdf = Inr (Some (if str_lower v = Str ''yes'' then 100 else 0)))"
proof (intro conjI impI)
  show "attrition_rate fdf = Inr (spec_attrition_rate fdf)"
    by (rule attrition_rate_object [OF assms])
  show "rate_metric (spec_attrition_rate fdf) = NotAvailable"
    if "''Attrition'' \<notin> set (columns fdf) \<or> rows fdf = []"
    using that by (auto simp: spec_attrition_rate_def rate_metric_def)
  show "attrition_rate fdf = Inr (Some (if str_lower v = Str ''yes'' then 100 else 0))"
    if h: "''Attrition'' \<in> set (columns fdf) \<and> rows fdf \<noteq> [] \<and>
          (\<forall>r \<in> set (rows fdf). cell_at (columns fdf) ''Attrition'' r = v)"
  proof -
    from h constant_rate [of "rows fdf" "cell_at (columns fdf) ''Attrition''" v str_lower "Str ''yes''"]
    have "spec_attrition_rate fdf = Some (if str_lower v = Str ''yes'' then 100 else 0)"
      by (simp add: spec_attrition_rate_def)
    then show ?thesis by (simp add: attrition_rate_object [OF assms])
  qed
qed

theorem attrition_rate_text_witness:
  "dtype_of all_yes_df ''Attrition'' \<noteq> Some Numeric \<and>
   ''Attrition'' \<in> set (columns all_yes_df) \<and> rows all_yes_df \<noteq> [] \<and>
   attrition_rate all_yes_df = Inr (Some 100)"
proof -
  have d: "dtype_of all_yes_df ''Attrition'' \<noteq> Some Numeric"
    by (simp add: all_yes_df_def dtype_of_def)
  have c: "''Attrition'' \<in> set (columns all_yes_df) \<and> rows all_yes_df \<noteq> [] \<and>
          (\<forall>r \<in> set (rows all_yes_df). cell_at (columns all_yes_df) ''Attrition'' r = Str ''Yes'')"
    by (simp add: all_yes_df_def columns_def cell_at_def)
  from attrition_rate_text [OF d, of "Str ''Yes''", THEN conjunct2, THEN conjunct2] c d
  show ?thesis
    by (simp add: lower_char_def)
qed

text \<open>
  On a table whose attrition column is numeric and constant, the claim asks for a rate of 0;
  the text accessor raises instead.
\<close>

theorem attrition_rate_numeric_counterexample:
  "spec_attrition_rate numeric_attrition_df = Some 0 \<and>
   attrition_rate numeric_attrition_df = Inl AttributeError"
  by (simp add: attrition_rate_def spec_attrition_rate_def numeric_attrition_df_def columns_def
      str_accessor_def dtype_of_def cell_at_def)

section \<open>Cross-tabulation\<close>

lemma normalize_row_sum:
  assumes "sum_list (map snd es) \<noteq> 0"
  shows "sum_list (map snd (normalize_row es)) = 1"
proof -
  let ?t = "sum_list (map snd es)"
  have d: "sum_list (map (\<lambda>e. real (snd e) / t) es) = real (sum_list (map snd es)) / t" for t
    by (induction es) (simp_all add: add_divide_distrib)
  have "map snd (normalize_row es) = map (\<lambda>e. real (snd e) / real ?t) es"
    using assms by (simp add: normalize_row_def Let_def comp_def del: sum_list_eq_0_iff)
  then have "sum_list (map snd (normalize_row es)) = real ?t / real ?t"
    by (simp only: d)
  with assms show ?thesis by (simp del: sum_list_eq_0_iff)
qed

lemma count_row_positive:
  assumes "r \<in> set (map fst ps)"
  shows "sum_list (map (\<lambda>c. length (filter (\<lambda>p. p = (r, c)) ps)) (unique (map snd ps))) \<noteq> 0"
proof -
  from assms obtain y where y: "(r, y) \<in> set ps" by auto
  then have "y \<in> set (unique (map snd ps))" by (force simp: set_unique)
  moreover from y have "length (filter (\<lambda>p. p = (r, y)) ps) \<noteq> 0"
    by (auto simp: filter_empty_conv)
  ultimately show ?thesis by (auto simp: sum_list_eq_0_iff)
qed

text \<open>
  Claim C5. For a filtered table that has both grouping columns, the cross-tabulation
  normalised by row exists and each of its rows sums to 1. Every row of the result is the
  row of a group with at least one record.
\<close>

theorem crosstab_rows_sum_to_one:
  assumes "a \<in> set (columns fdf)" and "b \<in> set (columns fdf)"
  shows "\<exists>ct. crosstab_view fdf a b = Some ct \<and> (\<forall>row \<in> set ct. sum_list (map snd (snd row)) = 1)"
proof -
  let ?ct = "crosstab_index (column fdf a) (column fdf b)"
  have "sum_list (map snd (snd row)) = 1" if "row \<in> set ?ct" for row
  proof -
    let ?ps = "filter (\<lambda>p. fst p \<noteq> NaN \<and> snd p \<noteq> NaN) (zip (column fdf a) (column fdf b))"
    from that obtain r where r: "r \<in> set (unique (map fst ?ps))"
      and row: "row = (r, normalize_row (map (\<lambda>c. (c, length (filter (\<lambda>p. p = (r, c)) ?ps)))
                                           (unique (map snd ?ps))))"
      by (auto simp: crosstab_index_def crosstab_counts_def Let_def)
    from r have "r \<in> set (map fst ?ps)" by (simp only: set_unique)
    from count_row_positive [OF this] show ?thesis
      by (simp add: row normalize_row_sum comp_def)
  qed
  with assms show ?thesis by (simp add: crosstab_view_def)
qed

theorem crosstab_rows_sum_to_one_witness:
  "''Department'' \<in> set (columns example_df) \<and> ''Attrition'' \<in> set (columns example_df) \<and>
   crosstab_view example_df ''Department'' ''Attrition'' =
     Some [(Str ''A'', [(Str ''Yes'', 1 / 2), (Str ''No'', 1 / 2)]),
           (Str ''B'', [(Str ''Yes'', 0), (Str ''No'', 1)])]"
  using crosstab_rows_sum_to_one [of "''Department''" example_df "''Attrition''"]
  by (simp add: example_df_def columns_def crosstab_view_def crosstab_index_def crosstab_counts_def
      normalize_row_def column_def cell_at_def)

section \<open>Pivot section and guards\<close>



lemma selectbox_aggregations: "\<exists>a. selectbox aggregations p = Some a"
  by (cases p) (simp_all add: selectbox_def aggregations_def)

lemma truthy_Some: "truthy x \<longleftrightarrow> (\<exists>s. x = Some s \<and> s \<noteq> [])"
  by (cases x) (simp_all add: truthy_def)

lemma pivot_section_Some:
  assumes "selectbox (columns fdf) (row_pick pc) = Some r" and "r \<noteq> []"
    and "selectbox (columns fdf) (col_pick pc) = Some c" and "c \<noteq> []"
    and "selectbox aggregations (agg_pick pc) = Some a"
  shows "pivot_section pivot_table fdf pc =
           (case pivot_table fdf r c a of
              Inr pt \<Rightarrow> Some (PivotTable pt)
            | Inl e \<Rightarrow> Some (Warning (''Pivot error: '' @ e)))"
  using assms by (simp add: pivot_section_def truthy_def)

lemma script_end_Some:
  "pivot_section pivot_table fdf pc = Some out \<Longrightarrow>
   script_end pivot_table fdf pc page = page @ [Shown out, Caption footer]"
  by (simp add: script_end_def)

text \<open>
  Claim C7, as amended. Whenever the pivot computation raises for the chosen row, column
  and aggregation, the pivot section shows the warning built from the message, what was on
  the page before stays there, and the script runs on to its last line. A request over a
  table with rows and no column besides the two different ones chosen raises nothing: the
  section shows an empty pivot, also for the mean.
\<close>

theorem pivot_error_recovered:
  assumes "selectbox (columns fdf) (row_pick pc) = Some r" and "r \<noteq> []"
    and "selectbox (columns fdf) (col_pick pc) = Some c" and "c \<noteq> []"
    and "selectbox aggregations (agg_pick pc) = Some a"
  shows "(pd_pivot_table aggregate fdf r c a = Inl e \<longrightarrow>
            pivot_section (pd_pivot_table aggregate) fdf pc = Some (Warning (''Pivot error: '' @ e)) \<and>
            script_end (pd_pivot_table aggregate) fdf pc page =
              page @ [Shown (Warning (''Pivot error: '' @ e)), Caption footer]) \<and>
         (r \<noteq> c \<and> value_columns fdf r c = [] \<and> rows fdf \<noteq> [] \<longrightarrow>
            pivot_section (pd_pivot_table aggregate) fdf pc = Some (PivotTable EmptyPivot))"
proof (intro conjI impI)
  assume e: "pd_pivot_table aggregate fdf r c a = Inl e"
  with pivot_section_Some [OF assms, of "pd_pivot_table aggregate"]
  show w: "pivot_section (pd_pivot_table aggregate) fdf pc = Some (Warning (''Pivot error: '' @ e))"
    by simp
  then show "script_end (pd_pivot_table aggregate) fdf pc page =
              page @ [Shown (Warning (''Pivot error: '' @ e)), Caption footer]"
    by (rule script_end_Some)
next
  assume "r \<noteq> c \<and> value_columns fdf r c = [] \<and> rows fdf \<noteq> []"
  then have "pd_pivot_table aggregate fdf r c a = Inr EmptyPivot"
    by (simp add: pd_pivot_table_def)
  with pivot_section_Some [OF assms, of "pd_pivot_table aggregate"]
  show "pivot_section (pd_pivot_table aggregate) fdf pc = Some (PivotTable EmptyPivot)"
    by simp
qed

theorem pivot_error_recovered_witness:
  "pd_pivot_table (mean_needs_numbers agg_failed) staff_df ''Department'' ''Attrition'' ''mean''
     = Inl agg_failed \<and>
   script_end (pd_pivot_table (mean_needs_numbers agg_failed)) staff_df mean_by_department [] =
     [Shown (Warning (''Pivot error: '' @ agg_failed)), Caption footer] \<and>
   value_columns example_df ''Department'' ''Attrition'' = [] \<and> rows example_df \<noteq> [] \<and>
   pivot_section (pd_pivot_table (mean_needs_numbers agg_failed)) example_df mean_by_department =
     Some (PivotTable EmptyPivot)"
proof -
  have a: "selectbox aggregations (agg_pick mean_by_department) = Some ''mean''"
    by (simp add: selectbox_def mean_by_department_def aggregations_def)
  have rn: "''Department'' \<noteq> []" and cn: "''Attrition'' \<noteq> []" by simp_all
  have r1: "selectbox (columns staff_df) (row_pick mean_by_department) = Some ''Department''"
    and c1: "selectbox (columns staff_df) (col_pick mean_by_department) = Some ''Attrition''"
    by (simp_all add: staff_df_def columns_def selectbox_def mean_by_department_def)
  have e1: "pd_pivot_table (mean_needs_numbers agg_failed) staff_df ''Department'' ''Attrition''
              ''mean'' = Inl agg_failed"
    by (simp add: pd_pivot_table_def mean_needs_numbers_def value_columns_def staff_df_def
        columns_def dtype_of_def)
  have r2: "selectbox (columns example_df) (row_pick mean_by_department) = Some ''Department''"
    and c2: "selectbox (columns example_df) (col_pick mean_by_department) = Some ''Attrition''"
    by (simp_all add: example_df_def columns_def selectbox_def mean_by_department_def)
  have v2: "value_columns example_df ''Department'' ''Attrition'' = [] \<and> rows example_df \<noteq> []"
    by (simp add: value_columns_def example_df_def columns_def)
  from pivot_error_recovered [where aggregate = "mean_needs_numbers agg_failed" and page = "[]",
      OF r1 rn c1 cn a, THEN conjunct1] e1
  have w1: "script_end (pd_pivot_table (mean_needs_numbers agg_failed)) staff_df
              mean_by_department [] =
            [Shown (Warning (''Pivot error: '' @ agg_failed)), Caption footer]"
    by simp
  from pivot_error_recovered [where aggregate = "mean_needs_numbers agg_failed",
      OF r2 rn c2 cn a, THEN conjunct2] v2
  have w2: "pivot_section (pd_pivot_table (mean_needs_numbers agg_failed)) example_df
              mean_by_department = Some (PivotTable EmptyPivot)"
    by simp
  from e1 w1 v2 w2 show ?thesis by simp
qed

text \<open>
  The claim fails on the table of the scenario filtered to one department: it has no
  numeric column, the mean by department and attrition is asked for, and the section shows
  an empty pivot and no warning.
\<close>

theorem pivot_mean_counterexample:
  "num_cols (filtered_df example_df only_dept_A) = [] \<and>
   pivot_section (pd_pivot_table (mean_needs_numbers agg_failed))
     (filtered_df example_df only_dept_A) mean_by_department = Some (PivotTable EmptyPivot)"
proof -
  have f: "filtered_df example_df only_dept_A =
           \<lparr>schema = [(''Department'', Object), (''Attrition'', Object)],
            rows = [[Str ''A'', Str ''Yes''], [Str ''A'', Str ''No'']]\<rparr>"
    by (simp add: filtered_df_def example_df_def only_dept_A_def filter_columns_def
        selections_def filter_step_def columns_def mask_rows_def isin_def column_def cell_at_def)
  show ?thesis
    unfolding f
    by (simp add: num_cols_def pivot_section_def selectbox_def columns_def truthy_def
        mean_by_department_def aggregations_def pd_pivot_table_def value_columns_def)
qed

text \<open>
  Claim C9, as amended. Each control starts on its first option. The pivot is computed in
  every run in which the row and the column control hold a non-empty column name, so for
  a table whose first column has a non-empty name it is computed before the user has
  touched any control; the aggregation control is not tested.
\<close>

theorem pivot_computed_by_default:
  "selectbox (x # xs) None = Some x \<and>
   (pivot_section pivot_table fdf pc \<noteq> None \<longleftrightarrow>
      truthy (selectbox (columns fdf) (row_pick pc)) \<and>
      truthy (selectbox (columns fdf) (col_pick pc))) \<and>
   (columns fdf = c # cs \<and> c \<noteq> [] \<longrightarrow> pivot_section pivot_table fdf untouched \<noteq> None)"
proof (intro conjI impI)
  show "selectbox (x # xs) None = Some x" by (simp add: selectbox_def)
  show iff: "pivot_section pivot_table fdf pc \<noteq> None \<longleftrightarrow>
      truthy (selectbox (columns fdf) (row_pick pc)) \<and>
      truthy (selectbox (columns fdf) (col_pick pc))" for pc
  proof
    assume "pivot_section pivot_table fdf pc \<noteq> None"
    then show "truthy (selectbox (columns fdf) (row_pick pc)) \<and>
      truthy (selectbox (columns fdf) (col_pick pc))"
      by (auto simp: pivot_section_def Let_def split: if_splits)
  next
    assume t: "truthy (selectbox (columns fdf) (row_pick pc)) \<and>
      truthy (selectbox (columns fdf) (col_pick pc))"
    then obtain r c where "selectbox (columns fdf) (row_pick pc) = Some r" "r \<noteq> []"
      "selectbox (columns fdf) (col_pick pc) = Some c" "c \<noteq> []"
      by (auto simp: truthy_Some)
    moreover obtain a where "selectbox aggregations (agg_pick pc) = Some a"
      using selectbox_aggregations by blast
    ultimately show "pivot_section pivot_table fdf pc \<noteq> None"
      by (simp add: pivot_section_Some split: sum.splits)
  qed
  show "pivot_section pivot_table fdf untouched \<noteq> None" if "columns fdf = c # cs \<and> c \<noteq> []"
    using that
    by (simp add: pivot_section_def untouched_def selectbox_def truthy_def aggregations_def
        split: sum.splits)
qed

theorem pivot_computed_by_default_witness:
  "columns example_df = ''Department'' # [''Attrition''] \<and> ''Department'' \<noteq> [] \<and>
   pivot_section pivot_ok example_df untouched \<noteq> None"
proof -
  have c: "columns example_df = ''Department'' # [''Attrition''] \<and> ''Department'' \<noteq> []"
    by (simp add: example_df_def columns_def)
  from pivot_computed_by_default [where fdf = example_df and pivot_table = pivot_ok
      and c = "''Department''" and cs = "[''Attrition'']", THEN conjunct2, THEN conjunct2] c
  show ?thesis by simp
qed

text \<open>
  The claim fails on the table of the scenario: no control has been touched, and the pivot
  of the first column by the first column with the first aggregation is computed.
\<close>

theorem pivot_no_default_counterexample:
  "row_pick untouched = None \<and> col_pick untouched = None \<and> agg_pick untouched = None \<and>
   pivot_section pivot_ok example_df untouched = Some (PivotTable ())"
  by (simp add: untouched_def pivot_section_def selectbox_def example_df_def columns_def
      aggregations_def truthy_def pivot_ok_def)




end
